theory Spec2Isabelle
  imports Main "HOL-Library.Sublist" "HOL-Library.Multiset"
begin

section \<open>Python string operations used by the file processor\<close>

text \<open>
  Text is modelled as \<open>string\<close>: one \<open>char\<close> stands for one character of a Python
  \<open>str\<close>, over the code points below 256. \<open>isspace\<close> lists the characters of that
  range that \<open>str.split()\<close> and \<open>str.strip()\<close> treat as whitespace.
\<close>

definition isspace :: "char \<Rightarrow> bool" where
  "isspace c \<longleftrightarrow> c \<in> {CHR 0x09, CHR 0x0A, CHR 0x0B, CHR 0x0C, CHR 0x0D,
     CHR 0x1C, CHR 0x1D, CHR 0x1E, CHR 0x1F, CHR 0x20, CHR 0x85, CHR 0xA0}"

text \<open>\<open>s.replace(old, new)\<close>: non-overlapping occurrences, leftmost first.\<close>

function str_replace :: "string \<Rightarrow> string \<Rightarrow> string \<Rightarrow> string" where
  "str_replace old new s =
     (if old = [] then new @ concat (map (\<lambda>c. c # new) s)
      else if s = [] then []
      else if prefix old s then new @ str_replace old new (drop (length old) s)
      else hd s # str_replace old new (tl s))"
  by pat_completeness auto
termination
  by (relation "measure (\<lambda>(old, new, s). length s)") auto

declare str_replace.simps [simp del]

text \<open>\<open>s.split()\<close>: the maximal runs of non-whitespace characters.\<close>

function str_split :: "string \<Rightarrow> string list" where
  "str_split [] = []"
| "str_split (c # cs) =
     (if isspace c then str_split cs
      else (c # takeWhile (\<lambda>x. \<not> isspace x) cs) # str_split (dropWhile (\<lambda>x. \<not> isspace x) cs))"
  by pat_completeness auto
termination
  by (relation "measure length") (auto simp: length_dropWhile_le less_Suc_eq_le)

text \<open>\<open>sep.join(parts)\<close>.\<close>

fun str_join :: "string \<Rightarrow> string list \<Rightarrow> string" where
  "str_join sep [] = []"
| "str_join sep [x] = x"
| "str_join sep (x # y # ys) = x @ sep @ str_join sep (y # ys)"

text \<open>\<open>s.strip()\<close>.\<close>

definition str_strip :: "string \<Rightarrow> string" where
  "str_strip s = rev (dropWhile isspace (rev (dropWhile isspace s)))"

text \<open>\<open>s.rsplit(sep, 1)\<close> for a one-character separator: split at the last occurrence.\<close>

definition str_rsplit1 :: "char \<Rightarrow> string \<Rightarrow> string list" where
  "str_rsplit1 sep s =
     (if sep \<in> set s
      then [rev (tl (dropWhile (\<lambda>c. c \<noteq> sep) (rev s))), rev (takeWhile (\<lambda>c. c \<noteq> sep) (rev s))]
      else [s])"

text \<open>\<open>s.lower()\<close> on the modelled range: A-Z and the Latin-1 capitals.\<close>

definition chr_lower :: "char \<Rightarrow> char" where
  "chr_lower c =
     (let n = (of_char c :: nat)
      in if (65 \<le> n \<and> n \<le> 90) \<or> (192 \<le> n \<and> n \<le> 222 \<and> n \<noteq> 215)
         then char_of (n + 32) else c)"

definition str_lower :: "string \<Rightarrow> string" where
  "str_lower s = map chr_lower s"

section \<open>Content normalisation and title derivation\<close>

text \<open>
  \<^verbatim>\<open>
  def clean_content(content):
      content = content.replace('\r\n', '\n')
      content = content.replace('\n\n\n', '\n\n')
      content = ' '.join(content.split())
      return content.strip()
  \<close>
\<close>

definition clean_content :: "string \<Rightarrow> string" where
  "clean_content content =
     (let c1 = str_replace [CHR 0x0D, CHR 0x0A] [CHR 0x0A] content;
          c2 = str_replace [CHR 0x0A, CHR 0x0A, CHR 0x0A] [CHR 0x0A, CHR 0x0A] c1;
          c3 = str_join '' '' (str_split c2)
      in str_strip c3)"

text \<open>
  \<^verbatim>\<open>
  def generate_title(filename, content):
      title = filename.rsplit('.', 1)[0].replace('_', ' ').replace('-', ' ')
      return title[:100]
  \<close>
  \<open>rsplit\<close> always returns at least one part, so index 0 never raises.
\<close>

definition generate_title :: "string \<Rightarrow> string \<Rightarrow> string" where
  "generate_title filename content =
     take 100 (str_replace ''-'' '' '' (str_replace ''_'' '' '' (hd (str_rsplit1 CHR ''.'' filename))))"

section \<open>Exceptions and the PDF reader\<close>

text \<open>
  Exceptions are values. Only \<open>PyPDF2.errors.PdfReadError\<close> is told apart by a handler
  of the repository; every other exception class is \<open>Exception\<close> with its message.
\<close>

datatype exn = PdfReadError string | Exception string

fun str_of_exn :: "exn \<Rightarrow> string" where
  "str_of_exn (PdfReadError m) = m"
| "str_of_exn (Exception m) = m"

text \<open>
  \<open>PyPDF2.PdfReader\<close> is outside the repository: a reader is what the code observes of
  it. \<open>pages\<close> is \<open>Inl\<close> when reading the page list raises; a page is the outcome of
  \<open>page.extract_text()\<close>, \<open>Inl\<close> when that call raises.
\<close>

type_synonym page = "exn + string"

record pdf_reader =
  is_encrypted :: bool
  pages :: "exn + page list"

type_synonym filesystem = "string \<rightharpoonup> string"

definition no_such_file :: "string \<Rightarrow> exn" where
  "no_such_file file_path =
     Exception (''[Errno 2] No such file or directory: '' @ [CHR 0x27] @ file_path @ [CHR 0x27])"

text \<open>
  \<^verbatim>\<open>
  text = ""
  for page in pdf_reader.pages:
      text += page.extract_text() + "\n"
  \<close>
\<close>

fun process_pdf_pages :: "string \<Rightarrow> page list \<Rightarrow> exn + string" where
  "process_pdf_pages text [] = Inr text"
| "process_pdf_pages text (p # ps) =
     (case p of
        Inl e \<Rightarrow> Inl e
      | Inr page_text \<Rightarrow> process_pdf_pages (text @ page_text @ [CHR 0x0A]) ps)"

text \<open>
  \<open>process_pdf\<close> of the file processor: every exception of the body, the one it raises
  itself for empty text included, is caught and raised again with a prefix.
\<close>

definition process_pdf ::
  "(string \<Rightarrow> exn + pdf_reader) \<Rightarrow> filesystem \<Rightarrow> string \<Rightarrow> exn + string" where
  "process_pdf PdfReader fs file_path =
     (let body =
        (case fs file_path of
           None \<Rightarrow> Inl (no_such_file file_path)
         | Some bytes \<Rightarrow>
             (case PdfReader bytes of
                Inl e \<Rightarrow> Inl e
              | Inr pdf_reader \<Rightarrow>
                  (case pages pdf_reader of
                     Inl e \<Rightarrow> Inl e
                   | Inr ps \<Rightarrow>
                       (case process_pdf_pages [] ps of
                          Inl e \<Rightarrow> Inl e
                        | Inr text \<Rightarrow>
                            if str_strip text = []
                            then Inl (Exception ''No text content extracted from PDF'')
                            else Inr (str_strip text)))))
      in case body of
           Inl e \<Rightarrow> Inl (Exception (''Failed to process PDF: '' @ str_of_exn e))
         | Inr text \<Rightarrow> Inr text)"

text \<open>\<open>process_text\<close>: \<open>open_read\<close> is \<open>open(path, 'r', encoding='utf-8').read()\<close> on the bytes.\<close>

definition process_text ::
  "(string \<Rightarrow> exn + string) \<Rightarrow> filesystem \<Rightarrow> string \<Rightarrow> exn + string" where
  "process_text open_read fs file_path =
     (let body =
        (case fs file_path of
           None \<Rightarrow> Inl (no_such_file file_path)
         | Some bytes \<Rightarrow>
             (case open_read bytes of
                Inl e \<Rightarrow> Inl e
              | Inr text \<Rightarrow> Inr (str_strip text)))
      in case body of
           Inl e \<Rightarrow> Inl (Exception (''Failed to process text file: '' @ str_of_exn e))
         | Inr text \<Rightarrow> Inr text)"

text \<open>
  The dashboard's extractor, \<open>extract_pdf_text\<close>. It returns a string on every path.
  \<^verbatim>\<open>
  for page in reader.pages:
      try:
          page_text = page.extract_text()
          text += page_text + "\n" if page_text else "[Empty page]\n"
      except Exception as page_error:
          text += f"[Error extracting page: {str(page_error)}]\n"
  \<close>
\<close>

fun extract_pdf_pages :: "string \<Rightarrow> page list \<Rightarrow> string" where
  "extract_pdf_pages text [] = text"
| "extract_pdf_pages text (p # ps) =
     (case p of
        Inl page_error \<Rightarrow>
          extract_pdf_pages
            (text @ ''[Error extracting page: '' @ str_of_exn page_error @ '']'' @ [CHR 0x0A]) ps
      | Inr page_text \<Rightarrow>
          extract_pdf_pages
            (text @ (if page_text \<noteq> [] then page_text @ [CHR 0x0A]
                     else ''[Empty page]'' @ [CHR 0x0A])) ps)"

definition encrypted_notice :: string where
  "encrypted_notice = ''[This PDF is encrypted and cannot be read without a password]''"

definition extract_pdf_text ::
  "(string \<Rightarrow> exn + pdf_reader) \<Rightarrow> filesystem \<Rightarrow> string \<Rightarrow> string" where
  "extract_pdf_text PdfReader fs file_path =
     (let body =
        (case fs file_path of
           None \<Rightarrow> Inl (no_such_file file_path)
         | Some bytes \<Rightarrow>
             (case PdfReader bytes of
                Inl e \<Rightarrow> Inl e
              | Inr reader \<Rightarrow>
                  if is_encrypted reader then Inr encrypted_notice
                  else (case pages reader of
                          Inl e \<Rightarrow> Inl e
                        | Inr ps \<Rightarrow> Inr (extract_pdf_pages [] ps))))
      in case body of
           Inr text \<Rightarrow> text
         | Inl (PdfReadError m) \<Rightarrow>
             ''[Error: This PDF appears to be damaged or uses unsupported features]''
         | Inl (Exception error_msg) \<Rightarrow>
             if sublist ''PyCryptodome'' error_msg
             then ''[Error: This PDF requires PyCryptodome library. Install with ''
                  @ [CHR 0x27] @ ''pip install pycryptodome'' @ [CHR 0x27] @ '']''
             else ''[Error extracting text: '' @ error_msg @ '']'')"

section \<open>The document store\<close>

text \<open>
  The two tables of \<open>documents.db\<close>, rows in insertion order. \<open>uploaded_by\<close>,
  \<open>user_id\<close> and \<open>metadata\<close> are nullable columns; \<open>created_at\<close> is the value of
  \<open>CURRENT_TIMESTAMP\<close> at insertion. The temporary files of the upload folder are part
  of the state.
\<close>

record document =
  doc_id :: string
  title :: string
  content :: string
  file_name :: string
  file_type :: string
  file_size :: nat
  uploaded_by :: "string option"
  is_public :: bool
  created_at :: int
  metadata :: "string option"

record session =
  session_id :: string
  user_id :: "string option"
  session_created_at :: int
  is_admin :: bool
  preferences :: string

record state =
  documents :: "document list"
  sessions :: "session list"
  files :: filesystem

section \<open>Responses\<close>

datatype doc_summary = DocSummary
  (sum_id: string) (sum_title: string) (sum_fileName: string) (sum_fileType: string)
  (sum_fileSize: nat) (sum_createdAt: int) (sum_isPublic: bool)

datatype uploaded_doc = UploadedDoc
  (up_id: string) (up_title: string) (up_content: string) (up_fileName: string)
  (up_fileType: string) (up_fileSize: nat)

text \<open>
  The JSON bodies: \<open>Failure\<close> is \<open>{success: false, error}\<close>; the others carry
  \<open>success: true\<close>. \<open>Listing\<close> holds the documents, \<open>totalDocuments\<close> and
  \<open>totalSize\<close>. A response is a status code and a body.
\<close>

datatype body =
    Failure string
  | SessionCreated (sessionId: string) (token: string)
  | Uploaded uploaded_doc
  | Listing (listed: "doc_summary list") (totalDocuments: nat) (totalSize: nat)
  | Deleted string

type_synonym response = "nat \<times> body"

section \<open>Sessions\<close>

text \<open>
  \<^verbatim>\<open>
  auth_header = request.headers.get('Authorization', '')
  session_id = auth_header.replace('Bearer ', '') if auth_header.startswith('Bearer ') else None
  \<close>
\<close>

definition bearer_session :: "string option \<Rightarrow> string option" where
  "bearer_session authorization =
     (let auth_header = (case authorization of None \<Rightarrow> [] | Some h \<Rightarrow> h)
      in if prefix ''Bearer '' auth_header
         then Some (str_replace ''Bearer '' [] auth_header) else None)"

text \<open>
  The value that \<open>request.get_json()\<close> returns. A number without fraction or exponent
  is a Python \<open>int\<close>. Any other number is a Python \<open>float\<close>, kept as what the handler
  and SQLite observe of it: whether it is zero, and the text a \<open>TEXT\<close> column stores for
  it (none for NaN, which SQLite stores as \<open>NULL\<close>). An object is the list of the entries
  of the parsed \<open>dict\<close>, each key once.
\<close>

datatype json =
    JNull
  | JBool bool
  | JInt int
  | JFloat bool "string option"
  | JStr string
  | JArray "json list"
  | JObject "(string \<times> json) list"

text \<open>Python truthiness, as in \<open>if user_id:\<close> and \<open>request.get_json() or {}\<close>.\<close>

fun truthy :: "json \<Rightarrow> bool" where
  "truthy JNull = False"
| "truthy (JBool b) = b"
| "truthy (JInt n) = (n \<noteq> 0)"
| "truthy (JFloat is_zero stored) = (\<not> is_zero)"
| "truthy (JStr s) = (s \<noteq> [])"
| "truthy (JArray xs) = (xs \<noteq> [])"
| "truthy (JObject kvs) = (kvs \<noteq> [])"

fun type_name :: "json \<Rightarrow> string" where
  "type_name JNull = ''NoneType''"
| "type_name (JBool b) = ''bool''"
| "type_name (JInt n) = ''int''"
| "type_name (JFloat is_zero stored) = ''float''"
| "type_name (JStr s) = ''str''"
| "type_name (JArray xs) = ''list''"
| "type_name (JObject kvs) = ''dict''"

text \<open>Decimal text of an integer, as SQLite writes it into a \<open>TEXT\<close> column.\<close>

function str_of_nat :: "nat \<Rightarrow> string" where
  "str_of_nat n =
     (if n < 10 then [char_of (48 + n)]
      else str_of_nat (n div 10) @ [char_of (48 + n mod 10)])"
  by pat_completeness auto
termination
  by (relation "measure (\<lambda>n. n)") auto

declare str_of_nat.simps [simp del]

definition str_of_int :: "int \<Rightarrow> string" where
  "str_of_int i = (if i < 0 then ''-'' @ str_of_nat (nat (- i)) else str_of_nat (nat i))"

text \<open>
  Binding a Python value to parameter \<open>pos\<close> of a statement on the \<open>user_id\<close> column,
  which has \<open>TEXT\<close> affinity: \<open>None\<close> is \<open>NULL\<close>, a \<open>bool\<close> is bound as the integer
  1 or 0, a number is converted to its text, an \<open>int\<close> outside 64 bits and a \<open>list\<close> or
  \<open>dict\<close> raise. The result is the value that is stored, or compared with the column.
\<close>

fun bind_param :: "string \<Rightarrow> json \<Rightarrow> exn + string option" where
  "bind_param pos JNull = Inr None"
| "bind_param pos (JBool b) = Inr (Some (if b then ''1'' else ''0''))"
| "bind_param pos (JInt n) =
     (if - (2 ^ 63) \<le> n \<and> n < 2 ^ 63 then Inr (Some (str_of_int n))
      else Inl (Exception ''Python int too large to convert to SQLite INTEGER''))"
| "bind_param pos (JFloat is_zero stored) = Inr stored"
| "bind_param pos (JStr s) = Inr (Some s)"
| "bind_param pos v =
     Inl (Exception (''Error binding parameter '' @ pos @ '': type '' @ [CHR 0x27]
            @ type_name v @ [CHR 0x27] @ '' is not supported''))"

text \<open>
  \<^verbatim>\<open>
  session_id = str(uuid.uuid4())
  cursor.execute('INSERT INTO sessions (session_id, user_id, preferences) VALUES (?, ?, ?)',
                 (session_id, user_id, preferences))
  \<close>
  The primary key of \<open>sessions\<close> makes the insertion of a stored session id raise; the
  handler reports every exception as 500 with its message.
\<close>

definition insert_session :: "string \<Rightarrow> int \<Rightarrow> json \<Rightarrow> string \<Rightarrow> state \<Rightarrow> response \<times> state" where
  "insert_session uuid clock uid prefs st =
     (case bind_param ''2'' uid of
        Inl e \<Rightarrow> ((500, Failure (str_of_exn e)), st)
      | Inr stored \<Rightarrow>
          if uuid \<in> set (map session_id (sessions st))
          then ((500, Failure ''UNIQUE constraint failed: sessions.session_id''), st)
          else ((200, SessionCreated uuid uuid),
                st\<lparr>sessions := sessions st @
                   [\<lparr>session_id = uuid, user_id = stored, session_created_at = clock,
                     is_admin = False, preferences = prefs\<rparr>]\<rparr>))"

text \<open>
  \<open>create_session\<close>. \<open>body\<close> is the outcome of \<open>request.get_json()\<close>, \<open>Inl\<close> when it
  raises; \<open>dumps\<close> is \<open>json.dumps\<close>, \<open>uuid\<close> the value of \<open>uuid.uuid4()\<close> and
  \<open>clock\<close> the current time. A body that is true in Python but no object has no
  \<open>get\<close>. The lookup \<open>SELECT session_id FROM sessions WHERE user_id = ?\<close> takes the
  first row whose stored user id equals the bound value; \<open>NULL\<close> equals nothing.
\<close>

definition create_session ::
  "(json \<Rightarrow> string) \<Rightarrow> string \<Rightarrow> int \<Rightarrow> exn + json \<Rightarrow> state \<Rightarrow> response \<times> state" where
  "create_session dumps uuid clock body st =
     (case body of
        Inl e \<Rightarrow> ((500, Failure (str_of_exn e)), st)
      | Inr j \<Rightarrow>
          (case (if truthy j then j else JObject []) of
             JObject data \<Rightarrow>
               (let uid = (case map_of data ''userId'' of None \<Rightarrow> JNull | Some v \<Rightarrow> v);
                    prefs = dumps (case map_of data ''userPreferences'' of
                                     None \<Rightarrow> JObject [] | Some v \<Rightarrow> v)
                in if truthy uid
                   then (case bind_param ''1'' uid of
                           Inl e \<Rightarrow> ((500, Failure (str_of_exn e)), st)
                         | Inr bound \<Rightarrow>
                             (case find (\<lambda>s. bound \<noteq> None \<and> user_id s = bound) (sessions st) of
                                Some s \<Rightarrow>
                                  ((200, SessionCreated (session_id s) (session_id s)), st)
                              | None \<Rightarrow> insert_session uuid clock uid prefs st))
                   else insert_session uuid clock uid prefs st)
           | other \<Rightarrow>
               ((500, Failure ([CHR 0x27] @ type_name other @ [CHR 0x27]
                   @ '' object has no attribute '' @ [CHR 0x27] @ ''get'' @ [CHR 0x27])), st)))"

text \<open>\<open>SELECT session_id FROM sessions WHERE session_id = ?\<close> has a row.\<close>

definition session_exists :: "state \<Rightarrow> string \<Rightarrow> bool" where
  "session_exists st sid \<longleftrightarrow> sid \<in> set (map session_id (sessions st))"

section \<open>Listing and deleting documents\<close>

definition to_summary :: "document \<Rightarrow> doc_summary" where
  "to_summary d =
     DocSummary (doc_id d) (title d) (file_name d) (file_type d) (file_size d)
       (created_at d) (is_public d)"

text \<open>
  \<^verbatim>\<open>
  SELECT id, title, file_name, file_type, file_size, created_at, is_public
  FROM documents WHERE uploaded_by = ? OR is_public = 1 ORDER BY created_at DESC
  \<close>
  A \<open>NULL\<close> owner equals no session id. The descending order is a stable sort on the
  negated timestamp.
\<close>

definition select_documents :: "string \<Rightarrow> document list \<Rightarrow> document list" where
  "select_documents sid docs =
     sort_key (\<lambda>d. - created_at d) (filter (\<lambda>d. uploaded_by d = Some sid \<or> is_public d) docs)"

definition get_documents :: "string option \<Rightarrow> state \<Rightarrow> response \<times> state" where
  "get_documents authorization st =
     (case bearer_session authorization of
        None \<Rightarrow> ((401, Failure ''No session token provided''), st)
      | Some sid \<Rightarrow>
          if sid = [] then ((401, Failure ''No session token provided''), st)
          else
            (let docs = map to_summary (select_documents sid (documents st))
             in ((200, Listing docs (length docs) (sum_list (map sum_fileSize docs))), st)))"

text \<open>
  \<open>delete_document\<close>:
  \<^verbatim>\<open>
  SELECT id FROM documents WHERE id = ? AND uploaded_by = ?
  DELETE FROM documents WHERE id = ?
  \<close>
\<close>

definition delete_document :: "string option \<Rightarrow> string \<Rightarrow> state \<Rightarrow> response \<times> state" where
  "delete_document authorization document_id st =
     (case bearer_session authorization of
        None \<Rightarrow> ((401, Failure ''No session token provided''), st)
      | Some sid \<Rightarrow>
          if sid = [] then ((401, Failure ''No session token provided''), st)
          else if filter (\<lambda>d. doc_id d = document_id \<and> uploaded_by d = Some sid) (documents st) = []
          then ((404, Failure ''Document not found or access denied''), st)
          else ((200, Deleted ''Document deleted successfully''),
                st\<lparr>documents := filter (\<lambda>d. doc_id d \<noteq> document_id) (documents st)\<rparr>))"

section \<open>Uploading a file\<close>

definition ALLOWED_EXTENSIONS :: "string set" where
  "ALLOWED_EXTENSIONS = {''pdf'', ''txt'', ''md''}"

text \<open>
  \<^verbatim>\<open>
  def allowed_file(filename):
      return '.' in filename and filename.rsplit('.', 1)[1].lower() in ALLOWED_EXTENSIONS
  \<close>
\<close>

definition allowed_file :: "string \<Rightarrow> bool" where
  "allowed_file filename \<longleftrightarrow>
     CHR ''.'' \<in> set filename \<and>
     str_lower (str_rsplit1 CHR ''.'' filename ! 1) \<in> ALLOWED_EXTENSIONS"

text \<open>
  \<open>save_document\<close>: \<open>uuid\<close> is the value of \<open>uuid.uuid4()\<close>. The primary key of
  \<open>documents\<close> makes the insertion of a stored id raise.
\<close>

definition save_document ::
  "string \<Rightarrow> int \<Rightarrow> string \<Rightarrow> string \<Rightarrow> string \<Rightarrow> string \<Rightarrow> nat \<Rightarrow> string \<Rightarrow> bool \<Rightarrow>
   document list \<Rightarrow> exn + (string \<times> document list)" where
  "save_document uuid now ttl cont filename ftype fsize sid public docs =
     (if uuid \<in> set (map doc_id docs)
      then Inl (Exception ''UNIQUE constraint failed: documents.id'')
      else Inr (uuid, docs @
             [\<lparr>doc_id = uuid, title = ttl, content = cont, file_name = filename,
               file_type = ftype, file_size = fsize, uploaded_by = Some sid,
               is_public = public, created_at = now, metadata = None\<rparr>]))"

text \<open>
  The operating system's answer to \<open>file.save\<close>: the file is written, or the call
  raises and leaves the path as it was, or it raises and leaves some bytes at the path.
\<close>

datatype save_result = Saved | Failed exn | FailedPartial exn string

text \<open>
  What the handler takes from outside the repository: the two values of \<open>uuid.uuid4()\<close>,
  the clock, werkzeug's \<open>secure_filename\<close>, the PDF reader, the decoding read of a text
  file, the order in which Python iterates over the set of allowed extensions, and the
  operating system's answer to writing given bytes at a given path.
\<close>

record env =
  uuid_file :: string
  uuid_doc :: string
  now :: int
  secure_filename :: "string \<Rightarrow> string"
  PdfReader :: "string \<Rightarrow> exn + pdf_reader"
  open_read :: "string \<Rightarrow> exn + string"
  extensions_order :: "string list"
  os_write :: "string \<Rightarrow> string \<Rightarrow> save_result"

text \<open>
  The request: the Authorization header, the file part (name, bytes), the form field, and
  the number of bytes of the multipart body besides the content of the file.
\<close>

record upload_request =
  authorization :: "string option"
  file_part :: "(string \<times> string) option"
  isPublic :: "string option"
  multipart_overhead :: nat

definition MAX_FILE_SIZE :: nat where
  "MAX_FILE_SIZE = 10 * 1024 * 1024"

text \<open>The length of the request body, which Flask compares with \<open>MAX_CONTENT_LENGTH\<close>.\<close>

definition content_length :: "upload_request \<Rightarrow> nat" where
  "content_length req =
     multipart_overhead req + (case file_part req of None \<Rightarrow> 0 | Some (fname, bytes) \<Rightarrow> length bytes)"

text \<open>\<open>os.path.join(a, b)\<close> for a folder name \<open>a\<close> without a trailing slash.\<close>

definition path_join :: "string \<Rightarrow> string \<Rightarrow> string" where
  "path_join a b = (if prefix ''/'' b then b else a @ ''/'' @ b)"

definition remove_file :: "string \<Rightarrow> state \<Rightarrow> state" where
  "remove_file file_path st = st\<lparr>files := (files st)(file_path := None)\<rparr>"

text \<open>
  The path components between slashes, and the limits of the file system on a name
  (255 bytes) and on a path (4095 bytes); \<open>file.save\<close> raises beyond them.
\<close>

fun path_components :: "string \<Rightarrow> string \<Rightarrow> string list" where
  "path_components cur [] = [rev cur]"
| "path_components cur (c # cs) =
     (if c = CHR ''/'' then rev cur # path_components [] cs else path_components (c # cur) cs)"

definition name_too_long :: "string \<Rightarrow> bool" where
  "name_too_long file_path \<longleftrightarrow>
     4095 < length file_path \<or> filter (\<lambda>c. 255 < length c) (path_components [] file_path) \<noteq> []"

text \<open>
  \<open>file.save(file_path)\<close>: the exception it raises, if any, and the files afterwards.
\<close>

definition file_save :: "env \<Rightarrow> filesystem \<Rightarrow> string \<Rightarrow> string \<Rightarrow> exn option \<times> filesystem" where
  "file_save env fs file_path bytes =
     (if name_too_long file_path
      then (Some (Exception (''[Errno 36] File name too long: '' @ [CHR 0x27] @ file_path @ [CHR 0x27])), fs)
      else (case os_write env file_path bytes of
              Saved \<Rightarrow> (None, fs(file_path \<mapsto> bytes))
            | Failed e \<Rightarrow> (Some e, fs)
            | FailedPartial e written \<Rightarrow> (Some e, fs(file_path \<mapsto> written))))"

text \<open>
  The checks before anything is written (session, size of the request, file part, file
  type): the response of an early return, or the session id, the file and the public flag.
  The first access to \<open>request.files\<close> raises \<open>RequestEntityTooLarge\<close> for a body
  longer than \<open>MAX_CONTENT_LENGTH\<close>; the handler's \<open>except\<close> answers it with 500.
\<close>

definition upload_validate ::
  "env \<Rightarrow> upload_request \<Rightarrow> state \<Rightarrow> response + (string \<times> string \<times> string \<times> bool)" where
  "upload_validate env req st =
     (case bearer_session (authorization req) of
        None \<Rightarrow> Inl (401, Failure ''No session token provided'')
      | Some sid \<Rightarrow>
          if sid = [] then Inl (401, Failure ''No session token provided'')
          else if \<not> session_exists st sid then Inl (401, Failure ''Invalid session'')
          else if MAX_FILE_SIZE < content_length req
          then Inl (500, Failure (''413 Request Entity Too Large: ''
                  @ ''The data value transmitted exceeds the capacity limit.''))
          else
            (case file_part req of
               None \<Rightarrow> Inl (400, Failure ''No file provided'')
             | Some (fname, bytes) \<Rightarrow>
                 if fname = [] then Inl (400, Failure ''No file selected'')
                 else
                   (let public =
                      (str_lower (case isPublic req of None \<Rightarrow> ''false'' | Some v \<Rightarrow> v) = ''true'')
                    in if \<not> allowed_file fname
                       then Inl (400, Failure (''File type not allowed. Allowed types: ''
                                   @ str_join '', '' (extensions_order env)))
                       else Inr (sid, fname, bytes, public))))"

text \<open>
  The dispatch on the file type; \<open>None\<close> is the branch of an unsupported type.
\<close>

definition process_file :: "env \<Rightarrow> string \<Rightarrow> filesystem \<Rightarrow> string \<Rightarrow> (exn + string) option" where
  "process_file env ftype fs file_path =
     (if ftype = ''pdf'' then Some (process_pdf (PdfReader env) fs file_path)
      else if ftype \<in> {''txt'', ''md''} then Some (process_text (open_read env) fs file_path)
      else None)"

text \<open>
  The part of \<open>upload_file\<close> after \<open>file.save(file_path)\<close>, run on the state that holds
  the temporary file: \<open>Inl\<close> is an exception that reaches the handler's \<open>except\<close>.
\<close>

definition upload_process ::
  "env \<Rightarrow> state \<Rightarrow> string \<Rightarrow> bool \<Rightarrow> string \<Rightarrow> string \<Rightarrow> exn + (response \<times> state)" where
  "upload_process env st sid public filename file_path =
     (case files st file_path of
        None \<Rightarrow> Inl (no_such_file file_path)
      | Some bytes \<Rightarrow>
          (let fsize = length bytes;
               parts = str_rsplit1 CHR ''.'' filename
           in if length parts < 2 then Inl (Exception ''list index out of range'')
              else
                (let ftype = str_lower (parts ! 1)
                 in case process_file env ftype (files st) file_path of
                      None \<Rightarrow>
                        Inr ((400, Failure (''Unsupported file type: '' @ ftype)),
                             remove_file file_path st)
                    | Some (Inl e) \<Rightarrow> Inl e
                    | Some (Inr raw) \<Rightarrow>
                        (let cont = clean_content raw
                         in if length cont < 100
                            then Inr ((400, Failure ''Document content is too short to be useful''),
                                      remove_file file_path st)
                            else
                              (let ttl = generate_title filename cont
                               in case save_document (uuid_doc env) (now env) ttl cont filename
                                         ftype fsize sid public (documents st) of
                                    Inl e \<Rightarrow> Inl e
                                  | Inr (new_id, docs) \<Rightarrow>
                                      Inr ((200, Uploaded (UploadedDoc new_id ttl
                                              (if length cont > 500 then take 500 cont @ ''...''
                                               else cont)
                                              filename ftype fsize)),
                                           remove_file file_path (st\<lparr>documents := docs\<rparr>)))))))"

text \<open>The name of the temporary file of a request.\<close>

definition upload_path :: "env \<Rightarrow> string \<Rightarrow> string" where
  "upload_path env fname =
     path_join ''uploads'' (uuid_file env @ ''_'' @ secure_filename env fname)"

text \<open>
  \<open>upload_file\<close>: validation, \<open>file.save\<close>, processing, and the \<open>except\<close> clause, which
  removes the temporary file if it exists and answers 500 with the message. An exception
  of \<open>file.save\<close> reaches the same clause.
\<close>

definition upload_file :: "env \<Rightarrow> upload_request \<Rightarrow> state \<Rightarrow> response \<times> state" where
  "upload_file env req st =
     (case upload_validate env req st of
        Inl r \<Rightarrow> (r, st)
      | Inr (sid, fname, bytes, public) \<Rightarrow>
          (let filename = secure_filename env fname;
               file_path = upload_path env fname;
               (raised, fs1) = file_save env (files st) file_path bytes;
               st1 = st\<lparr>files := fs1\<rparr>
           in case (case raised of
                      Some e \<Rightarrow> Inl e
                    | None \<Rightarrow> upload_process env st1 sid public filename file_path) of
                Inr r \<Rightarrow> r
              | Inl e \<Rightarrow>
                  ((500, Failure (str_of_exn e)),
                   if files st1 file_path \<noteq> None then remove_file file_path st1 else st1)))"

section \<open>Example stores and requests\<close>

text \<open>
  Concrete data on which the definitions are evaluated: a store with one session and two
  documents of 1200 and 3400 bytes, stores for the session examples, an environment whose
  text reader returns the bytes as they are, whose PDF reader rejects the file and whose
  file system accepts every write, request bodies with a user id, and three PDF readers.
\<close>

definition doc_a :: document where
  "doc_a = \<lparr>doc_id = ''d1'', title = ''grow guide'', content = ''text'', file_name = ''grow_guide.pdf'',
     file_type = ''pdf'', file_size = 1200, uploaded_by = Some ''s1'', is_public = True,
     created_at = 10, metadata = None\<rparr>"

definition doc_b :: document where
  "doc_b = \<lparr>doc_id = ''d2'', title = ''notes'', content = ''text'', file_name = ''notes.txt'',
     file_type = ''txt'', file_size = 3400, uploaded_by = Some ''s1'', is_public = False,
     created_at = 20, metadata = None\<rparr>"

definition session_a :: session where
  "session_a = \<lparr>session_id = ''s1'', user_id = Some ''alice'', session_created_at = 1,
     is_admin = False, preferences = ''{}''\<rparr>"

definition store_ab :: state where
  "store_ab = \<lparr>documents = [doc_a, doc_b], sessions = [session_a], files = Map.empty\<rparr>"

definition session_anon :: session where
  "session_anon = \<lparr>session_id = ''s0'', user_id = Some [], session_created_at = 1,
     is_admin = False, preferences = ''{}''\<rparr>"

definition store_anon :: state where
  "store_anon = \<lparr>documents = [], sessions = [session_anon], files = Map.empty\<rparr>"

definition store_a :: state where
  "store_a = \<lparr>documents = [], sessions = [session_a], files = Map.empty\<rparr>"

definition session_zero :: session where
  "session_zero = \<lparr>session_id = ''s0'', user_id = Some ''0'', session_created_at = 1,
     is_admin = False, preferences = ''{}''\<rparr>"

definition store_zero :: state where
  "store_zero = \<lparr>documents = [], sessions = [session_zero], files = Map.empty\<rparr>"

definition body_of :: "json \<Rightarrow> exn + json" where
  "body_of uid = Inr (JObject [(''userId'', uid)])"

definition dumps_ex :: "json \<Rightarrow> string" where
  "dumps_ex j = (case j of JObject [] \<Rightarrow> ''{}'' | other \<Rightarrow> ''null'')"

definition env_ex :: env where
  "env_ex = \<lparr>uuid_file = ''f1'', uuid_doc = ''d9'', now = 30, secure_filename = (\<lambda>n. n),
     PdfReader = (\<lambda>b. Inl (PdfReadError ''EOF marker not found'')),
     open_read = (\<lambda>b. Inr b), extensions_order = [''pdf'', ''txt'', ''md''],
     os_write = (\<lambda>p b. Saved)\<rparr>"


definition text_100 :: string where
  "text_100 = replicate 100 CHR ''a''"

definition upload_of :: "string \<Rightarrow> string \<Rightarrow> upload_request" where
  "upload_of name bytes =
     \<lparr>authorization = Some ''Bearer s1'', file_part = Some (name, bytes), isPublic = Some ''True'',
      multipart_overhead = 300\<rparr>"

definition pdf_store :: filesystem where
  "pdf_store = [''uploads/f1_guide.pdf'' \<mapsto> ''%PDF-1.7'']"

definition reader_encrypted :: "string \<Rightarrow> exn + pdf_reader" where
  "reader_encrypted bytes =
     Inr \<lparr>is_encrypted = True, pages = Inr [Inr ''Nutrient film technique'']\<rparr>"

definition reader_locked :: "string \<Rightarrow> exn + pdf_reader" where
  "reader_locked bytes =
     Inr \<lparr>is_encrypted = True, pages = Inl (PdfReadError ''File has not been decrypted'')\<rparr>"

definition reader_bad_page :: "string \<Rightarrow> exn + pdf_reader" where
  "reader_bad_page bytes =
     Inr \<lparr>is_encrypted = False,
          pages = Inr [Inr ''Lettuce'', Inl (Exception ''bad font''), Inr ''Basil'']\<rparr>"

section \<open>Words\<close>

text \<open>A word is a non-empty string without whitespace: what \<open>str.split()\<close> returns.\<close>

definition word :: "string \<Rightarrow> bool" where
  "word w \<longleftrightarrow> w \<noteq> [] \<and> (\<forall>c \<in> set w. \<not> isspace c)"

section \<open>Properties of the string operations\<close>


lemma str_rsplit1_stem: "sep \<notin> set ext \<Longrightarrow> str_rsplit1 sep (stem @ sep # ext) = [stem, ext]"
proof -
  assume a: "sep \<notin> set ext"
  then have d: "dropWhile (\<lambda>c. c \<noteq> sep) (rev ext @ sep # rev stem) = sep # rev stem"
    by (auto simp: dropWhile_append3)
  from a have t: "takeWhile (\<lambda>c. c \<noteq> sep) (rev ext @ sep # rev stem) = rev ext"
    by (auto simp: takeWhile_tail)
  show ?thesis by (simp add: str_rsplit1_def d t)
qed


lemma isspace_space: "isspace CHR '' ''"
  by (simp add: isspace_def)

lemma str_split_words: "\<forall>w \<in> set (str_split s). word w"
proof (induction s rule: str_split.induct)
  case 1
  show ?case by simp
next
  case (2 c cs)
  show ?case
  proof (cases "isspace c")
    case True
    with 2 show ?thesis by simp
  next
    case False
    have "word (c # takeWhile (\<lambda>x. \<not> isspace x) cs)"
      using False by (auto simp: word_def dest: set_takeWhileD)
    with 2 False show ?thesis by simp
  qed
qed

lemma str_split_word_append:
  assumes "word w" "isspace c"
  shows "str_split (w @ c # r) = w # str_split r"
proof -
  from assms(1) obtain a w' where w: "w = a # w'" and a: "\<not> isspace a"
    and w': "\<forall>x \<in> set w'. \<not> isspace x"
    by (cases w) (auto simp: word_def)
  have t: "takeWhile (\<lambda>x. \<not> isspace x) (w' @ c # r) = w'"
    using w' assms(2) by (simp add: takeWhile_tail)
  have d: "dropWhile (\<lambda>x. \<not> isspace x) (w' @ c # r) = c # r"
    using w' assms(2) by (simp add: dropWhile_append3)
  show ?thesis using a assms(2) by (simp add: w t d)
qed

lemma str_split_word: "word w \<Longrightarrow> str_split w = [w]"
proof -
  assume "word w"
  then obtain a w' where w: "w = a # w'" and a: "\<not> isspace a"
    and w': "\<forall>x \<in> set w'. \<not> isspace x"
    by (cases w) (auto simp: word_def)
  have t: "takeWhile (\<lambda>x. \<not> isspace x) w' = w'" using w' by auto
  have d: "dropWhile (\<lambda>x. \<not> isspace x) w' = []" using w' by auto
  show ?thesis using a by (simp add: w t d)
qed

lemma str_split_join: "\<forall>w \<in> set ws. word w \<Longrightarrow> str_split (str_join '' '' ws) = ws"
proof (induction ws rule: induct_list012[case_names Nil One More])
  case Nil
  show ?case by simp
next
  case (One x)
  then show ?case by (simp add: str_split_word)
next
  case (More x y ys)
  then show ?case by (simp add: str_split_word_append isspace_space)
qed

lemma str_join_chars:
  "\<forall>w \<in> set ws. word w \<Longrightarrow> c \<in> set (str_join '' '' ws) \<Longrightarrow> c = CHR '' '' \<or> \<not> isspace c"
  by (induction ws rule: induct_list012) (auto simp: word_def)

lemma str_join_ends:
  "\<forall>w \<in> set ws. word w \<Longrightarrow> ws \<noteq> [] \<Longrightarrow>
     str_join '' '' ws \<noteq> [] \<and> \<not> isspace (hd (str_join '' '' ws)) \<and> \<not> isspace (last (str_join '' '' ws))"
proof (induction ws rule: induct_list012[case_names Nil One More])
  case Nil
  then show ?case by simp
next
  case (One x)
  then show ?case by (cases x rule: rev_cases) (auto simp: word_def hd_append split: if_splits)
next
  case (More x y ys)
  then have x: "x \<noteq> []" "\<not> isspace (hd x)" by (auto simp: word_def)
  from More have r: "str_join '' '' (y # ys) \<noteq> []" "\<not> isspace (last (str_join '' '' (y # ys)))"
    by auto
  show ?case using x r by (simp add: hd_append)
qed

lemma str_join_no_double:
  "\<forall>w \<in> set ws. word w \<Longrightarrow>
     successively (\<lambda>a b. \<not> (a = CHR '' '' \<and> b = CHR '' '')) (str_join '' '' ws)"
proof (induction ws rule: induct_list012[case_names Nil One More])
  case Nil
  show ?case by simp
next
  case (One x)
  then have "\<forall>c \<in> set x. c \<noteq> CHR '' ''" by (auto simp: word_def isspace_space)
  then show ?case by (induction x rule: induct_list012) auto
next
  case (More x y ys)
  then have nx: "\<forall>c \<in> set x. c \<noteq> CHR '' ''" and x: "x \<noteq> []"
    by (auto simp: word_def isspace_space)
  from nx have sx: "successively (\<lambda>a b. \<not> (a = CHR '' '' \<and> b = CHR '' '')) x"
    by (induction x rule: induct_list012) auto
  from More have e: "str_join '' '' (y # ys) \<noteq> []" "\<not> isspace (hd (str_join '' '' (y # ys)))"
    using str_join_ends[of "y # ys"] by auto
  then have h: "hd (str_join '' '' (y # ys)) \<noteq> CHR '' ''" using isspace_space by auto
  from More have ih: "successively (\<lambda>a b. \<not> (a = CHR '' '' \<and> b = CHR '' '')) (str_join '' '' (y # ys))"
    by simp
  have "successively (\<lambda>a b. \<not> (a = CHR '' '' \<and> b = CHR '' '')) (CHR '' '' # str_join '' '' (y # ys))"
    using ih e h by (cases "str_join '' '' (y # ys)") auto
  then show ?case using sx x nx
    by (simp add: successively_append_iff)
qed

lemma str_strip_id: "s = [] \<or> (\<not> isspace (hd s) \<and> \<not> isspace (last s)) \<Longrightarrow> str_strip s = s"
proof (cases s)
  case Nil
  then show ?thesis by (simp add: str_strip_def)
next
  case (Cons a as)
  assume "s = [] \<or> (\<not> isspace (hd s) \<and> \<not> isspace (last s))"
  with Cons have h: "\<not> isspace (hd s)" and l: "\<not> isspace (last s)" by auto
  from h Cons have d: "dropWhile isspace s = s" by simp
  from Cons have "s \<noteq> []" by simp
  then obtain ys y where s: "s = ys @ [y]" by (metis rev_exhaust)
  have "dropWhile isspace (rev s) = rev s" using l by (simp add: s)
  then show ?thesis by (simp add: str_strip_def d)
qed

lemma str_replace_absent: "old \<noteq> [] \<Longrightarrow> hd old \<notin> set s \<Longrightarrow> str_replace old new s = s"
proof (induction s)
  case Nil
  then show ?case by (simp add: str_replace.simps)
next
  case (Cons c cs)
  then have "\<not> prefix old (c # cs)" by (cases old) (auto simp: prefix_Cons)
  with Cons show ?case by (subst str_replace.simps) auto
qed

lemma str_replace_char: "str_replace [a] [b] s = map (\<lambda>x. if x = a then b else x) s"
proof (induction s)
  case Nil
  show ?case by (simp add: str_replace.simps)
next
  case (Cons c cs)
  then show ?case
    by (subst str_replace.simps) (auto simp: prefix_Cons)
qed

lemma generate_title_map:
  "generate_title filename c =
     take 100 (map (\<lambda>x. if x = CHR ''_'' \<or> x = CHR ''-'' then CHR '' '' else x)
       (hd (str_rsplit1 CHR ''.'' filename)))"
proof -
  have "map (\<lambda>x. if x = CHR ''-'' then CHR '' '' else x)
          (map (\<lambda>x. if x = CHR ''_'' then CHR '' '' else x) xs) =
        map (\<lambda>x. if x = CHR ''_'' \<or> x = CHR ''-'' then CHR '' '' else x) xs" for xs
    by (induction xs) auto
  then show ?thesis by (simp add: generate_title_def str_replace_char del: map_map)
qed

section \<open>Title derivation\<close>

text \<open>
  C9. The title is a function of the filename alone: for a filename \<open>stem.ext\<close> whose
  extension holds no dot, it is \<open>stem\<close> with every underscore and every hyphen replaced
  by a space, cut to its first 100 characters; it never exceeds 100 characters;
  \<open>hydroponic_nutrient-guide.pdf\<close> gives \<open>hydroponic nutrient guide\<close>; and the
  extracted content does not influence it.
\<close>

theorem generate_title_spec:
  "(CHR ''.'' \<notin> set ext \<longrightarrow>
      generate_title (stem @ ''.'' @ ext) c =
        take 100 (map (\<lambda>x. if x = CHR ''_'' \<or> x = CHR ''-'' then CHR '' '' else x) stem))
   \<and> length (generate_title filename c) \<le> 100
   \<and> generate_title ''hydroponic_nutrient-guide.pdf'' c = ''hydroponic nutrient guide''
   \<and> generate_title filename c = generate_title filename c'"
proof -
  have a: "CHR ''.'' \<notin> set ext \<longrightarrow>
      generate_title (stem @ ''.'' @ ext) c =
        take 100 (map (\<lambda>x. if x = CHR ''_'' \<or> x = CHR ''-'' then CHR '' '' else x) stem)"
    using str_rsplit1_stem[of "CHR ''.''" ext stem] by (simp add: generate_title_map)
  have b: "length (generate_title filename c) \<le> 100"
    by (simp add: generate_title_def)
  have d: "generate_title ''hydroponic_nutrient-guide.pdf'' c = ''hydroponic nutrient guide''"
    by (simp add: generate_title_map str_rsplit1_def)
  have e: "generate_title filename c = generate_title filename c'"
    by (simp add: generate_title_def)
  from a b d e show ?thesis by blast
qed

theorem generate_title_spec_witness:
  "CHR ''.'' \<notin> set ''pdf'' \<and>
   generate_title (''my_notes-v2'' @ ''.'' @ ''pdf'') ''some text'' = ''my notes v2''"
  using generate_title_spec[of "''pdf''" "''my_notes-v2''" "''some text''"] by simp

section \<open>Flattening normalisation\<close>

lemma clean_content_join:
  "clean_content s = str_join '' '' (str_split
     (str_replace [CHR 0x0A, CHR 0x0A, CHR 0x0A] [CHR 0x0A, CHR 0x0A]
        (str_replace [CHR 0x0D, CHR 0x0A] [CHR 0x0A] s)))"
proof -
  let ?ws = "str_split (str_replace [CHR 0x0A, CHR 0x0A, CHR 0x0A] [CHR 0x0A, CHR 0x0A]
        (str_replace [CHR 0x0D, CHR 0x0A] [CHR 0x0A] s))"
  have w: "\<forall>w \<in> set ?ws. word w" by (rule str_split_words)
  have "str_strip (str_join '' '' ?ws) = str_join '' '' ?ws"
  proof (cases "?ws = []")
    case True
    then show ?thesis by (simp add: str_strip_def)
  next
    case False
    with w show ?thesis using str_join_ends[of ?ws] by (intro str_strip_id) blast
  qed
  then show ?thesis by (simp add: clean_content_def Let_def)
qed

lemma clean_content_words:
  "\<exists>ws. (\<forall>w \<in> set ws. word w) \<and> clean_content s = str_join '' '' ws"
  using clean_content_join str_split_words by blast

lemma isspace_controls: "isspace (CHR 0x0A)" "isspace (CHR 0x0D)" "isspace (CHR 0x09)"
  by (simp_all add: isspace_def)

lemma clean_content_idem: "clean_content (clean_content s) = clean_content s"
proof -
  obtain ws where ws: "\<forall>w \<in> set ws. word w" and c: "clean_content s = str_join '' '' ws"
    using clean_content_words by blast
  let ?r = "str_join '' '' ws"
  have nl: "CHR 0x0A \<notin> set ?r" and cr: "CHR 0x0D \<notin> set ?r"
    using str_join_chars[OF ws] isspace_controls by fastforce+
  have r1: "str_replace [CHR 0x0D, CHR 0x0A] [CHR 0x0A] ?r = ?r"
    using cr by (simp add: str_replace_absent)
  have r2: "str_replace [CHR 0x0A, CHR 0x0A, CHR 0x0A] [CHR 0x0A, CHR 0x0A] ?r = ?r"
    using nl by (simp add: str_replace_absent)
  have "clean_content ?r = str_join '' '' (str_split ?r)"
    by (simp add: clean_content_join r1 r2)
  also have "\<dots> = ?r" by (simp add: str_split_join ws)
  finally show ?thesis by (simp add: c)
qed

lemma successively_no_sublist:
  "successively (\<lambda>a b. \<not> (a = x \<and> b = x)) r \<Longrightarrow> \<not> sublist [x, x] r"
proof
  assume s: "successively (\<lambda>a b. \<not> (a = x \<and> b = x)) r" and "sublist [x, x] r"
  then obtain ps ss where "r = ps @ [x, x] @ ss" by (auto simp: sublist_def)
  with s have "successively (\<lambda>a b. \<not> (a = x \<and> b = x)) ([x, x] @ ss)"
    by (simp add: successively_append_iff)
  then show False by simp
qed

text \<open>
  C10. For every input, \<open>clean_content\<close> returns a string without newline, carriage
  return or tab, without two consecutive spaces, and without leading or trailing
  whitespace; and applying it twice is the same as applying it once.
\<close>

theorem clean_content_normal_form:
  "CHR 0x0A \<notin> set (clean_content s) \<and> CHR 0x0D \<notin> set (clean_content s)
   \<and> CHR 0x09 \<notin> set (clean_content s)
   \<and> \<not> sublist ''  '' (clean_content s)
   \<and> (clean_content s = [] \<or>
        (\<not> isspace (hd (clean_content s)) \<and> \<not> isspace (last (clean_content s))))
   \<and> clean_content (clean_content s) = clean_content s"
proof -
  obtain ws where ws: "\<forall>w \<in> set ws. word w" and c: "clean_content s = str_join '' '' ws"
    using clean_content_words by blast
  have ch: "CHR 0x0A \<notin> set (clean_content s)" "CHR 0x0D \<notin> set (clean_content s)"
      "CHR 0x09 \<notin> set (clean_content s)"
    unfolding c using str_join_chars[OF ws] isspace_controls by fastforce+
  have dbl: "\<not> sublist ''  '' (clean_content s)"
    unfolding c using str_join_no_double[OF ws] by (rule successively_no_sublist)
  have ends: "clean_content s = [] \<or>
        (\<not> isspace (hd (clean_content s)) \<and> \<not> isspace (last (clean_content s)))"
  proof (cases "ws = []")
    case True
    then show ?thesis by (simp add: c)
  next
    case False
    then show ?thesis unfolding c using str_join_ends[OF ws] by blast
  qed
  show ?thesis using ch dbl ends clean_content_idem by blast
qed

theorem clean_content_normal_form_witness:
  "clean_content ([CHR 0x09] @ '' Hydro  ponics'' @ [CHR 0x0D, CHR 0x0A, CHR 0x0A, CHR 0x0A] @ ''guide '') \<noteq> []
   \<and> \<not> isspace (hd (clean_content ([CHR 0x09] @ '' Hydro  ponics'' @ [CHR 0x0D, CHR 0x0A, CHR 0x0A, CHR 0x0A] @ ''guide '')))
   \<and> \<not> isspace (last (clean_content ([CHR 0x09] @ '' Hydro  ponics'' @ [CHR 0x0D, CHR 0x0A, CHR 0x0A, CHR 0x0A] @ ''guide '')))"
proof -
  have e: "clean_content ([CHR 0x09] @ '' Hydro  ponics'' @ [CHR 0x0D, CHR 0x0A, CHR 0x0A, CHR 0x0A] @ ''guide '') = ''Hydro ponics guide''"
    by code_simp
  show ?thesis
    using clean_content_normal_form[of "[CHR 0x09] @ '' Hydro  ponics'' @ [CHR 0x0D, CHR 0x0A, CHR 0x0A, CHR 0x0A] @ ''guide ''"]
    unfolding e by simp
qed

section \<open>Evaluating the bearer token\<close>

lemma bearer_s1: "bearer_session (Some ''Bearer s1'') = Some ''s1''"
  by code_simp

lemma bearer_ghost: "bearer_session (Some ''Bearer ghost'') = Some ''ghost''"
  by code_simp

section \<open>Deleting a document\<close>

text \<open>
  C2. With a session id in the bearer token, \<open>delete_document\<close> succeeds if and only
  if a stored document has the requested id and that session as its uploader; it then
  removes the document. In every other case it answers 404 with the one merged message and
  leaves the store as it was.
\<close>

theorem delete_document_owner_only:
  assumes "bearer_session auth = Some sid" and "sid \<noteq> []"
  shows "(fst (fst (delete_document auth did st)) = 200 \<longleftrightarrow>
            (\<exists>d \<in> set (documents st). doc_id d = did \<and> uploaded_by d = Some sid))
       \<and> ((\<exists>d \<in> set (documents st). doc_id d = did \<and> uploaded_by d = Some sid) \<longrightarrow>
            delete_document auth did st =
              ((200, Deleted ''Document deleted successfully''),
               st\<lparr>documents := filter (\<lambda>d. doc_id d \<noteq> did) (documents st)\<rparr>))
       \<and> (\<not> (\<exists>d \<in> set (documents st). doc_id d = did \<and> uploaded_by d = Some sid) \<longrightarrow>
            delete_document auth did st =
              ((404, Failure ''Document not found or access denied''), st))"
proof -
  have e: "(filter (\<lambda>d. doc_id d = did \<and> uploaded_by d = Some sid) (documents st) = []) =
           (\<not> (\<exists>d \<in> set (documents st). doc_id d = did \<and> uploaded_by d = Some sid))"
    by (auto simp: filter_empty_conv)
  show ?thesis using assms by (simp add: delete_document_def e)
qed

theorem delete_document_owner_only_witness:
  "bearer_session (Some ''Bearer s1'') = Some ''s1'' \<and> ''s1'' \<noteq> []
   \<and> delete_document (Some ''Bearer s1'') ''d2'' store_ab =
        ((200, Deleted ''Document deleted successfully''), store_ab\<lparr>documents := [doc_a]\<rparr>)
   \<and> bearer_session (Some ''Bearer ghost'') = Some ''ghost'' \<and> ''ghost'' \<noteq> []
   \<and> delete_document (Some ''Bearer ghost'') ''d2'' store_ab =
        ((404, Failure ''Document not found or access denied''), store_ab)"
proof -
  have n: "''s1'' \<noteq> []" "''ghost'' \<noteq> []" by simp_all
  have a: "delete_document (Some ''Bearer s1'') ''d2'' store_ab =
        ((200, Deleted ''Document deleted successfully''), store_ab\<lparr>documents := [doc_a]\<rparr>)"
    using delete_document_owner_only[OF bearer_s1 n(1), of "''d2''" store_ab]
    by (simp add: store_ab_def doc_a_def doc_b_def)
  have b: "delete_document (Some ''Bearer ghost'') ''d2'' store_ab =
        ((404, Failure ''Document not found or access denied''), store_ab)"
    using delete_document_owner_only[OF bearer_ghost n(2), of "''d2''" store_ab]
    by (simp add: store_ab_def doc_a_def doc_b_def)
  show ?thesis using a b bearer_s1 bearer_ghost by simp
qed

section \<open>Listing documents\<close>






section \<open>The session check\<close>

text \<open>
  C1. Listing and deleting do not look the bearer session up: for a token that is no stored
  session id, \<open>get_documents\<close> answers 200 with the public documents and
  \<open>delete_document\<close> answers 404, where \<open>upload_file\<close> answers 401.
\<close>

theorem get_documents_unknown_session:
  "\<not> session_exists store_ab ''ghost''
   \<and> get_documents (Some ''Bearer ghost'') store_ab =
        ((200, Listing [to_summary doc_a] 1 1200), store_ab)
   \<and> delete_document (Some ''Bearer ghost'') ''d1'' store_ab =
        ((404, Failure ''Document not found or access denied''), store_ab)
   \<and> upload_file env \<lparr>authorization = Some ''Bearer ghost'', file_part = f, isPublic = p,
        multipart_overhead = n\<rparr> store_ab =
        ((401, Failure ''Invalid session''), store_ab)"
  by (simp add: get_documents_def bearer_ghost select_documents_def store_ab_def doc_a_def doc_b_def
        to_summary_def session_exists_def session_a_def upload_file_def upload_validate_def
        delete_document_def)

section \<open>Creating a session\<close>

lemma bind_param_zero: "bind_param pos (JInt 0) = Inr (Some ''0'')"
proof -
  have "str_of_int 0 = ''0''" by code_simp
  then show ?thesis by simp
qed

text \<open>
  The claim C4 as stated fails in three ways. A user id that is false in Python is treated
  as absent: with a session stored for the empty string, or for 0, a further call creates a
  second record. A user id that cannot be bound as an SQL parameter, such as a list, makes
  every call answer 500. And when no session is stored for the user id and the drawn
  session id is already stored, the first call answers 500 and only the second returns a
  session id.
\<close>

theorem create_session_falsy_or_unbound_counterexample:
  "find (\<lambda>s. user_id s = Some []) (sessions store_anon) = Some session_anon
   \<and> session_id session_anon \<noteq> ''s9''
   \<and> create_session dumps_ex ''s9'' 2 (body_of (JStr [])) store_anon =
       ((200, SessionCreated ''s9'' ''s9''),
        store_anon\<lparr>sessions := [session_anon,
          \<lparr>session_id = ''s9'', user_id = Some [], session_created_at = 2,
           is_admin = False, preferences = ''{}''\<rparr>]\<rparr>)
   \<and> bind_param ''1'' (JInt 0) = Inr (Some ''0'')
   \<and> find (\<lambda>s. user_id s = Some ''0'') (sessions store_zero) = Some session_zero
   \<and> fst (create_session dumps_ex ''s9'' 2 (body_of (JInt 0)) store_zero) =
       (200, SessionCreated ''s9'' ''s9'')
   \<and> fst (fst (create_session dumps_ex ''s8'' 2 (body_of (JArray [JInt 1])) store_a)) = 500
   \<and> snd (create_session dumps_ex ''s8'' 2 (body_of (JArray [JInt 1])) store_a) = store_a
   \<and> fst (fst (create_session dumps_ex ''s9'' 3 (body_of (JArray [JInt 1])) store_a)) = 500
   \<and> create_session dumps_ex ''s1'' 2 (body_of (JStr ''bob'')) store_a =
       ((500, Failure ''UNIQUE constraint failed: sessions.session_id''), store_a)
   \<and> fst (create_session dumps_ex ''s9'' 3 (body_of (JStr ''bob'')) store_a) =
       (200, SessionCreated ''s9'' ''s9'')"
  by (simp add: create_session_def insert_session_def body_of_def dumps_ex_def store_anon_def
        session_anon_def store_a_def session_a_def store_zero_def session_zero_def Let_def
        bind_param_zero del: bind_param.simps(3))

lemma find_append_None: "find P xs = None \<Longrightarrow> find P (xs @ ys) = find P ys"
  by (induction xs) (auto split: if_splits)

lemma bind_param_pos: "bind_param p v = Inr x \<Longrightarrow> bind_param q v = Inr x"
  by (cases v) (auto split: if_splits)

lemma create_session_lookup:
  assumes "map_of data ''userId'' = Some v" and "truthy v" and "bind_param ''1'' v = Inr (Some k)"
  shows "create_session dumps uuid clock (Inr (JObject data)) st =
           (case find (\<lambda>s. user_id s = Some k) (sessions st) of
              Some s \<Rightarrow> ((200, SessionCreated (session_id s) (session_id s)), st)
            | None \<Rightarrow>
                if uuid \<in> set (map session_id (sessions st))
                then ((500, Failure ''UNIQUE constraint failed: sessions.session_id''), st)
                else ((200, SessionCreated uuid uuid),
                      st\<lparr>sessions := sessions st @
                        [\<lparr>session_id = uuid, user_id = Some k, session_created_at = clock,
                          is_admin = False,
                          preferences = dumps (case map_of data ''userPreferences'' of
                                     None \<Rightarrow> JObject [] | Some v \<Rightarrow> v)\<rparr>]\<rparr>))"
proof -
  have d: "data \<noteq> []" using assms(1) by auto
  have b2: "bind_param ''2'' v = Inr (Some k)" using assms(3) by (rule bind_param_pos)
  show ?thesis using assms d b2
    by (simp add: create_session_def insert_session_def Let_def split: option.splits)
qed

text \<open>
  C4, amended. Let the body be an object whose \<open>userId\<close> is true in Python and is
  stored by SQLite as the text \<open>k\<close>. If a session is stored for \<open>k\<close>,
  \<open>create_session\<close> returns the id of the first such session and leaves the store, its
  preferences included, as it was. Whenever a call returns a session id, a following call
  with the same \<open>userId\<close> returns the same id and changes nothing. And a call that draws
  a session id not yet stored does return a session id.
\<close>

theorem create_session_idempotent:
  assumes "map_of data ''userId'' = Some v" and "map_of data' ''userId'' = Some v"
      and "truthy v" and "bind_param ''1'' v = Inr (Some k)"
  shows "(find (\<lambda>s. user_id s = Some k) (sessions st) = Some s \<longrightarrow>
            s \<in> set (sessions st) \<and> user_id s = Some k \<and>
            create_session dumps uuid clock (Inr (JObject data)) st =
              ((200, SessionCreated (session_id s) (session_id s)), st))
       \<and> (create_session dumps uuid clock (Inr (JObject data)) st =
              ((200, SessionCreated sid tok), st') \<longrightarrow>
            create_session dumps' uuid' clock' (Inr (JObject data')) st' =
              ((200, SessionCreated sid sid), st'))
       \<and> (uuid \<notin> set (map session_id (sessions st)) \<longrightarrow>
            (\<exists>new_sid new_st. create_session dumps uuid clock (Inr (JObject data)) st =
               ((200, SessionCreated new_sid new_sid), new_st)))"
proof -
  note l = create_session_lookup[OF assms(1) assms(3) assms(4)]
  note l' = create_session_lookup[OF assms(2) assms(3) assms(4)]
  have a: "find (\<lambda>s. user_id s = Some k) (sessions st) = Some s \<longrightarrow>
            s \<in> set (sessions st) \<and> user_id s = Some k \<and>
            create_session dumps uuid clock (Inr (JObject data)) st =
              ((200, SessionCreated (session_id s) (session_id s)), st)"
  proof
    assume f: "find (\<lambda>s. user_id s = Some k) (sessions st) = Some s"
    then have "s \<in> set (sessions st) \<and> user_id s = Some k"
      by (auto simp: find_Some_iff)
    then show "s \<in> set (sessions st) \<and> user_id s = Some k \<and>
            create_session dumps uuid clock (Inr (JObject data)) st =
              ((200, SessionCreated (session_id s) (session_id s)), st)"
      using f by (simp add: l)
  qed
  have b: "create_session dumps uuid clock (Inr (JObject data)) st =
              ((200, SessionCreated sid tok), st') \<longrightarrow>
            create_session dumps' uuid' clock' (Inr (JObject data')) st' =
              ((200, SessionCreated sid sid), st')"
  proof
    assume c: "create_session dumps uuid clock (Inr (JObject data)) st =
              ((200, SessionCreated sid tok), st')"
    show "create_session dumps' uuid' clock' (Inr (JObject data')) st' =
              ((200, SessionCreated sid sid), st')"
    proof (cases "find (\<lambda>s. user_id s = Some k) (sessions st)")
      case (Some s)
      with c have "st' = st" "sid = session_id s" by (simp_all add: l)
      with Some show ?thesis by (simp add: l')
    next
      case None
      let ?new = "\<lparr>session_id = uuid, user_id = Some k, session_created_at = clock,
                          is_admin = False,
                          preferences = dumps (case map_of data ''userPreferences'' of
                                     None \<Rightarrow> JObject [] | Some v \<Rightarrow> v)\<rparr>"
      from c None have st': "st' = st\<lparr>sessions := sessions st @ [?new]\<rparr>" and sid: "sid = uuid"
        by (auto simp: l split: if_splits)
      have "find (\<lambda>s. user_id s = Some k) (sessions st') = Some ?new"
        using None by (simp add: st' find_append_None)
      with sid show ?thesis by (simp add: l')
    qed
  qed
  have c: "uuid \<notin> set (map session_id (sessions st)) \<longrightarrow>
            (\<exists>new_sid new_st. create_session dumps uuid clock (Inr (JObject data)) st =
               ((200, SessionCreated new_sid new_sid), new_st))"
    by (simp add: l split: option.splits)
  from a b c show ?thesis by blast
qed

lemma alice_userId: "map_of [(''userId'', JStr ''alice'')] ''userId'' = Some (JStr ''alice'')"
  by simp

lemma alice_prefs_userId:
  "map_of [(''userPreferences'', JObject [(''theme'', JStr ''dark'')]), (''userId'', JStr ''alice'')]
     ''userId'' = Some (JStr ''alice'')"
  by simp

theorem create_session_idempotent_witness:
  "map_of [(''userId'', JStr ''alice'')] ''userId'' = Some (JStr ''alice'')
   \<and> truthy (JStr ''alice'') \<and> bind_param ''1'' (JStr ''alice'') = Inr (Some ''alice'')
   \<and> find (\<lambda>s. user_id s = Some ''alice'') (sessions store_a) = Some session_a
   \<and> create_session dumps_ex ''s9'' 2 (Inr (JObject [(''userId'', JStr ''alice'')])) store_a =
       ((200, SessionCreated ''s1'' ''s1''), store_a)
   \<and> create_session dumps_ex ''s8'' 3
        (Inr (JObject [(''userPreferences'', JObject [(''theme'', JStr ''dark'')]),
                       (''userId'', JStr ''alice'')])) store_a =
       ((200, SessionCreated ''s1'' ''s1''), store_a)"
proof -
  have t: "truthy (JStr ''alice'')" by simp
  have k: "bind_param ''1'' (JStr ''alice'') = Inr (Some ''alice'')" by simp
  have f: "find (\<lambda>s. user_id s = Some ''alice'') (sessions store_a) = Some session_a"
    by (simp add: store_a_def session_a_def)
  note th = create_session_idempotent[OF alice_userId alice_prefs_userId t k,
      of store_a session_a dumps_ex "''s9''" 2 "''s1''" "''s1''" store_a dumps_ex "''s8''" 3]
  have a: "create_session dumps_ex ''s9'' 2 (Inr (JObject [(''userId'', JStr ''alice'')])) store_a =
       ((200, SessionCreated ''s1'' ''s1''), store_a)"
    using th f by (simp add: session_a_def)
  have b: "create_session dumps_ex ''s8'' 3
        (Inr (JObject [(''userPreferences'', JObject [(''theme'', JStr ''dark'')]),
                       (''userId'', JStr ''alice'')])) store_a =
       ((200, SessionCreated ''s1'' ''s1''), store_a)"
    using th a by simp
  show ?thesis using f a b by simp
qed

section \<open>Uploading\<close>

lemma upload_process_files:
  assumes "files st1 file_path = Some bytes"
      and "upload_process env st1 sid public filename file_path = Inr (r, st2)"
  shows "files st2 = (files st1)(file_path := None)"
  using assms
  by (auto simp: upload_process_def Let_def remove_file_def
           split: if_splits option.splits sum.splits prod.splits)

lemma file_save_cases:
  "file_save env fs p bytes = (None, fs(p \<mapsto> bytes))
   \<or> (\<exists>e. file_save env fs p bytes = (Some e, fs))
   \<or> (\<exists>e w. file_save env fs p bytes = (Some e, fs(p \<mapsto> w)))"
  by (auto simp: file_save_def split: save_result.splits)

text \<open>
  C6. Once a request has passed validation and its temporary file has been written, the
  file is gone when the request completes, whatever the outcome, and no other file has
  changed; a request that fails validation changes nothing.
\<close>

theorem upload_temp_file_removed:
  "(upload_validate env req st = Inr (sid, fname, bytes, public) \<longrightarrow>
      files (snd (upload_file env req st)) = (files st)(upload_path env fname := None))
   \<and> (upload_validate env req st = Inl r \<longrightarrow> snd (upload_file env req st) = st)"
proof -
  have a: "upload_validate env req st = Inr (sid, fname, bytes, public) \<longrightarrow>
      files (snd (upload_file env req st)) = (files st)(upload_path env fname := None)"
  proof
    assume v: "upload_validate env req st = Inr (sid, fname, bytes, public)"
    let ?p = "upload_path env fname"
    from file_save_cases[of env "files st" ?p bytes]
    consider (saved) "file_save env (files st) ?p bytes = (None, (files st)(?p \<mapsto> bytes))"
      | (failed) e where "file_save env (files st) ?p bytes = (Some e, files st)"
      | (partial) e w where "file_save env (files st) ?p bytes = (Some e, (files st)(?p \<mapsto> w))"
      by blast
    then show "files (snd (upload_file env req st)) = (files st)(?p := None)"
    proof cases
      case saved
      let ?st1 = "st\<lparr>files := (files st)(?p \<mapsto> bytes)\<rparr>"
      have w: "files ?st1 ?p = Some bytes" by simp
      show ?thesis
      proof (cases "upload_process env ?st1 sid public (secure_filename env fname) ?p")
        case (Inl e)
        with v saved show ?thesis by (simp add: upload_file_def Let_def remove_file_def)
      next
        case (Inr rs)
        obtain r' st2 where rs: "rs = (r', st2)" by (cases rs)
        from upload_process_files[OF w Inr[unfolded rs]]
        have "files st2 = (files st)(?p := None)" by simp
        with v saved Inr rs show ?thesis by (simp add: upload_file_def Let_def)
      qed
    next
      case failed
      with v show ?thesis
        by (auto simp: upload_file_def Let_def remove_file_def fun_upd_idem_iff)
    next
      case partial
      with v show ?thesis
        by (auto simp: upload_file_def Let_def remove_file_def fun_upd_idem_iff)
    qed
  qed
  have b: "upload_validate env req st = Inl r \<longrightarrow> snd (upload_file env req st) = st"
    by (simp add: upload_file_def)
  from a b show ?thesis by blast
qed

lemma allowed_notes: "allowed_file ''notes.txt''" "allowed_file ''guide.PDF''"
  by code_simp+

lemma lower_True: "str_lower ''True'' = ''true''"
  by code_simp

lemma session_s1: "session_exists store_ab ''s1''"
  by (simp add: session_exists_def store_ab_def session_a_def)

lemma validate_upload_of:
  assumes "allowed_file name" and "name \<noteq> []" and "length bytes \<le> 10000"
  shows "upload_validate env_ex (upload_of name bytes) store_ab = Inr (''s1'', name, bytes, True)"
  using assms
  by (simp add: upload_validate_def upload_of_def bearer_s1 session_s1 content_length_def
        MAX_FILE_SIZE_def lower_True)

lemma env_ex_sel:
  "secure_filename env_ex = (\<lambda>n. n)"
  "PdfReader env_ex = (\<lambda>b. Inl (PdfReadError ''EOF marker not found''))"
  "os_write env_ex = (\<lambda>p b. Saved)"
  by (simp_all add: env_ex_def)

lemma save_ex:
  "\<not> name_too_long p \<Longrightarrow> file_save env_ex fs p bytes = (None, fs(p \<mapsto> bytes))"
  by (simp add: file_save_def env_ex_sel)

lemma validate_guide_pdf: "upload_validate env_ex (upload_of ''guide.PDF'' text_100) store_ab =
    Inr (''s1'', ''guide.PDF'', text_100, True)"
  by (rule validate_upload_of) (simp_all add: allowed_notes text_100_def)

lemma guide_short_name: "\<not> name_too_long (upload_path env_ex ''guide.PDF'')"
  by code_simp

lemma rsplit_guide: "str_rsplit1 CHR ''.'' ''guide.PDF'' = [''guide'', ''PDF'']"
  by code_simp

lemma lower_PDF: "str_lower ''PDF'' = ''pdf''"
  by code_simp

lemma upload_guide_pdf_fails: "fst (upload_file env_ex (upload_of ''guide.PDF'' text_100) store_ab) =
    (500, Failure ''Failed to process PDF: EOF marker not found'')"
  using guide_short_name
  by (simp add: upload_file_def validate_guide_pdf save_ex upload_process_def Let_def
        env_ex_sel rsplit_guide lower_PDF process_file_def process_pdf_def)

theorem upload_temp_file_removed_witness:
  "upload_validate env_ex (upload_of ''guide.PDF'' text_100) store_ab =
      Inr (''s1'', ''guide.PDF'', text_100, True)
   \<and> fst (upload_file env_ex (upload_of ''guide.PDF'' text_100) store_ab) =
      (500, Failure ''Failed to process PDF: EOF marker not found'')
   \<and> files (snd (upload_file env_ex (upload_of ''guide.PDF'' text_100) store_ab))
        (upload_path env_ex ''guide.PDF'') = None"
  using upload_temp_file_removed[of env_ex "upload_of ''guide.PDF'' text_100" store_ab
      "''s1''" "''guide.PDF''" text_100 True] validate_guide_pdf upload_guide_pdf_fails
  by simp

text \<open>
  A request body above the size limit is answered with 500 before the file part is read,
  and so is a request whose file cannot be saved; neither stores a document.
\<close>

lemma upload_too_large:
  assumes "bearer_session (authorization req) = Some sid" and "sid \<noteq> []"
      and "session_exists st sid" and "MAX_FILE_SIZE < content_length req"
  shows "upload_file env req st =
     ((500, Failure (''413 Request Entity Too Large: ''
          @ ''The data value transmitted exceeds the capacity limit.'')), st)"
  using assms by (simp add: upload_file_def upload_validate_def)

lemma upload_save_fails:
  assumes "upload_validate env req st = Inr (sid, fname, bytes, public)"
      and "file_save env (files st) (upload_path env fname) bytes = (Some e, fs1)"
  shows "fst (upload_file env req st) = (500, Failure (str_of_exn e))
       \<and> documents (snd (upload_file env req st)) = documents st"
  using assms by (simp add: upload_file_def Let_def remove_file_def)













section \<open>PDF extraction\<close>

lemma extract_pdf_text_encrypted:
  "fs file_path = Some bytes \<Longrightarrow> reader bytes = Inr r \<Longrightarrow> is_encrypted r \<Longrightarrow>
     extract_pdf_text reader fs file_path = encrypted_notice"
  by (simp add: extract_pdf_text_def)

lemma process_pdf_pages_error:
  "Inl e \<in> set ps \<Longrightarrow> \<exists>e'. process_pdf_pages acc ps = Inl e'"
  by (induction ps arbitrary: acc) (auto split: sum.splits)

text \<open>
  C7. \<open>process_pdf\<close> never reads the encryption flag: for an encrypted PDF whose
  pages can be read it returns their text, and for one whose pages cannot be read it fails
  with the generic processing error raised by the page access. The dashboard's
  \<open>extract_pdf_text\<close> answers both with the encryption notice, before any page.
\<close>

theorem process_pdf_encrypted:
  "process_pdf reader_encrypted pdf_store ''uploads/f1_guide.pdf'' = Inr ''Nutrient film technique''
   \<and> process_pdf reader_locked pdf_store ''uploads/f1_guide.pdf'' =
        Inl (Exception ''Failed to process PDF: File has not been decrypted'')
   \<and> extract_pdf_text reader_encrypted pdf_store ''uploads/f1_guide.pdf'' = encrypted_notice
   \<and> extract_pdf_text reader_locked pdf_store ''uploads/f1_guide.pdf'' = encrypted_notice"
  by code_simp

text \<open>
  C8. In \<open>process_pdf\<close> a page whose text extraction raises aborts the whole document:
  the text of the other pages is lost. The dashboard's \<open>extract_pdf_text\<close> records the
  failing page and keeps the others.
\<close>

theorem process_pdf_page_error:
  "process_pdf reader_bad_page pdf_store ''uploads/f1_guide.pdf'' =
      Inl (Exception ''Failed to process PDF: bad font'')
   \<and> extract_pdf_text reader_bad_page pdf_store ''uploads/f1_guide.pdf'' =
      ''Lettuce'' @ [CHR 0x0A] @ ''[Error extracting page: bad font]'' @ [CHR 0x0A]
        @ ''Basil'' @ [CHR 0x0A]"
  by code_simp

end
